theory Spec2Isabelle
  imports Complex_Main
begin

unbundle bit_operations_syntax

section \<open>Rectangles of the graphics library\<close>

text \<open>
  The engine stores bounding boxes as integer rectangles of the graphics library:
  a top-left corner, a width and a height. Python floats are modelled as reals and
  Python integers as \<open>int\<close>; where a float becomes a rectangle coordinate (and in
  Python's \<open>int(x)\<close>) the fraction is cut off towards zero.
\<close>

datatype rect = Rect (rx: int) (ry: int) (rw: int) (rh: int)

definition py_int :: "real \<Rightarrow> int" where
  "py_int v = (if 0 \<le> v then \<lfloor>v\<rfloor> else \<lceil>v\<rceil>)"

text \<open>\<^verbatim>\<open>pygame.Rect((left, top), (width, height))\<close> with a float corner.\<close>

definition Rect_at :: "real \<times> real \<Rightarrow> int \<times> int \<Rightarrow> rect" where
  "Rect_at topleft sz = Rect (py_int (fst topleft)) (py_int (snd topleft)) (fst sz) (snd sz)"

definition rect_right :: "rect \<Rightarrow> int" where
  "rect_right r = rx r + rw r"

definition rect_bottom :: "rect \<Rightarrow> int" where
  "rect_bottom r = ry r + rh r"

text \<open>\<^verbatim>\<open>a.union(b)\<close>: the smallest rectangle that covers both.\<close>

definition rect_union :: "rect \<Rightarrow> rect \<Rightarrow> rect" where
  "rect_union a b =
     (let left = min (rx a) (rx b);
          top = min (ry a) (ry b)
      in Rect left top (max (rect_right a) (rect_right b) - left)
                       (max (rect_bottom a) (rect_bottom b) - top))"

text \<open>\<^verbatim>\<open>a.colliderect(b)\<close>: the two pixel regions share a pixel.\<close>

definition colliderect :: "rect \<Rightarrow> rect \<Rightarrow> bool" where
  "colliderect a b \<longleftrightarrow>
     rx a < rect_right b \<and> ry a < rect_bottom b \<and> rx b < rect_right a \<and> ry b < rect_bottom a"

section \<open>Collision grid\<close>

text \<open>
  Modelled from the spec: the scene's \<^verbatim>\<open>collide_check\<close> (the scene classes are not
  among the sources). The spec gives it as the single query
  \<^verbatim>\<open>intersects_solid(rectangle) -> bool\<close>, "does rectangle R intersect any tile with the
  SOLID flag"; the solid tiles are given here by their bounding rectangles.
\<close>

definition intersects_solid :: "rect list \<Rightarrow> rect \<Rightarrow> bool" where
  "intersects_solid solids r = list_ex (colliderect r) solids"

section \<open>The human player's move\<close>

datatype direction = North | East | South | West

datatype action = Walk | Stand

datatype velocity = Velocity (vx: real) (vy: real)

record walkabout =
  direction :: direction
  action :: action
  topleft_float :: "real \<times> real"
  size_w :: "int \<times> int"
  rect :: rect

record actor =
  walkabout :: walkabout
  velocity :: velocity

text \<open>
  One pass of the loop body, recorded: the step count, the speed factor it was
  multiplied with, the destination rectangle and the rectangle handed to the
  collision query.
\<close>

record probe =
  p_pixels :: int
  p_adj_speed :: real
  p_destination :: rect
  p_collision :: rect

text \<open>\<^verbatim>\<open>range(start, stop, -1)\<close>: start, start - 1, ..., stop + 1.\<close>

definition range_down :: "int \<Rightarrow> int \<Rightarrow> int list" where
  "range_down start stop = rev [stop + 1 .. start]"

text \<open>The \<^verbatim>\<open>if direction == ... elif ...\<close> chain that offsets the float position.\<close>

fun offset_topleft :: "direction \<Rightarrow> real \<times> real \<Rightarrow> real \<Rightarrow> real \<times> real" where
  "offset_topleft North (new_x, new_y) d = (new_x, new_y - d)"
| "offset_topleft East (new_x, new_y) d = (new_x + d, new_y)"
| "offset_topleft South (new_x, new_y) d = (new_x, new_y + d)"
| "offset_topleft West (new_x, new_y) d = (new_x - d, new_y)"

text \<open>
  The loop \<^verbatim>\<open>for pixels in range(iter_pixels, 0, -1)\<close> over the remaining step counts.
  \<open>adj_speed\<close> is the loop-carried variable: the assignment under
  \<^verbatim>\<open>if pixels == 2\<close> is seen by every later pass. The collision query and the
  largest frame size of the current animation are parameters. The result is the
  list of passes made and, when a pass commits, the updated walkabout
  (\<^verbatim>\<open>return True\<close>); \<open>None\<close> is the loop running out.
\<close>

fun move_loop ::
  "(rect \<Rightarrow> bool) \<Rightarrow> (walkabout \<Rightarrow> int \<times> int) \<Rightarrow> direction \<Rightarrow> walkabout \<Rightarrow> real \<Rightarrow>
     int list \<Rightarrow> probe list \<times> walkabout option" where
  "move_loop collide_check largest_frame_size d w adj_speed [] = ([], None)"
| "move_loop collide_check largest_frame_size d w adj_speed (pixels # rest) =
     (let adj_speed' = (if pixels = 2 then 1 else adj_speed);
          new_topleft = offset_topleft d (topleft_float w) (real_of_int pixels * adj_speed');
          destination_rect = Rect_at new_topleft (size_w w);
          collision_rect = rect_union (rect w) destination_rect;
          pr = \<lparr>p_pixels = pixels, p_adj_speed = adj_speed',
                p_destination = destination_rect, p_collision = collision_rect\<rparr>
      in if \<not> collide_check collision_rect then
           (let w1 = w\<lparr>action := Walk\<rparr>;
                w2 = w1\<lparr>size_w := largest_frame_size w1\<rparr>;
                w3 = w2\<lparr>rect := destination_rect\<rparr>;
                w4 = w3\<lparr>topleft_float := new_topleft\<rparr>
            in ([pr], Some w4))
         else
           (let (prs, res) = move_loop collide_check largest_frame_size d w adj_speed' rest
            in (pr # prs, res)))"

definition planned_movement_in_pixels :: "actor \<Rightarrow> direction \<Rightarrow> real" where
  "planned_movement_in_pixels a d =
     (if d \<in> {North, South} then vy (velocity a) else vx (velocity a))"

definition iter_pixels :: "actor \<Rightarrow> direction \<Rightarrow> int" where
  "iter_pixels a d = max 1 (py_int (planned_movement_in_pixels a d))"

definition move_run ::
  "(rect \<Rightarrow> bool) \<Rightarrow> (walkabout \<Rightarrow> int \<times> int) \<Rightarrow> real \<Rightarrow> actor \<Rightarrow> direction \<Rightarrow>
     probe list \<times> walkabout option" where
  "move_run collide_check largest_frame_size time_elapsed_milliseconds a d =
     move_loop collide_check largest_frame_size d ((walkabout a)\<lparr>direction := d\<rparr>)
       (time_elapsed_milliseconds / 1000) (range_down (iter_pixels a d) 0)"

text \<open>
  \<^verbatim>\<open>HumanPlayer.move(game, direction)\<close>: the returned boolean and the actor afterwards.
  \<open>game.scene.collide_check\<close>, the animation's \<open>largest_frame_size\<close> and
  \<open>game.screen.time_elapsed_milliseconds\<close> are what the call reads from its
  surroundings.
\<close>

definition move ::
  "(rect \<Rightarrow> bool) \<Rightarrow> (walkabout \<Rightarrow> int \<times> int) \<Rightarrow> real \<Rightarrow> actor \<Rightarrow> direction \<Rightarrow> bool \<times> actor" where
  "move collide_check largest_frame_size time_elapsed_milliseconds a d =
     (case snd (move_run collide_check largest_frame_size time_elapsed_milliseconds a d) of
        Some w' \<Rightarrow> (True, a\<lparr>walkabout := w'\<rparr>)
      | None \<Rightarrow> (False, a\<lparr>walkabout := (walkabout a)\<lparr>direction := d, action := Stand\<rparr>\<rparr>))"

text \<open>The passes a call makes, in order.\<close>

definition move_probes ::
  "(rect \<Rightarrow> bool) \<Rightarrow> (walkabout \<Rightarrow> int \<times> int) \<Rightarrow> real \<Rightarrow> actor \<Rightarrow> direction \<Rightarrow> probe list" where
  "move_probes collide_check largest_frame_size time_elapsed_milliseconds a d =
     fst (move_run collide_check largest_frame_size time_elapsed_milliseconds a d)"

text \<open>
  A tile lies between two rectangles along the x axis when it starts at or after the
  right edge of the first and ends at or before the left edge of the second, and
  shares a row with one of them; along the y axis likewise with columns. An actor
  tunnels through a tile when the tile lies between its start and its destination
  rectangle, in either order, along either axis.
\<close>

definition share_rows :: "rect \<Rightarrow> rect \<Rightarrow> bool" where
  "share_rows a t \<longleftrightarrow> ry t < rect_bottom a \<and> ry a < rect_bottom t"

definition share_columns :: "rect \<Rightarrow> rect \<Rightarrow> bool" where
  "share_columns a t \<longleftrightarrow> rx t < rect_right a \<and> rx a < rect_right t"

definition between_x :: "rect \<Rightarrow> rect \<Rightarrow> rect \<Rightarrow> bool" where
  "between_x a t b \<longleftrightarrow>
     rect_right a \<le> rx t \<and> rect_right t \<le> rx b \<and> (share_rows a t \<or> share_rows b t)"

definition between_y :: "rect \<Rightarrow> rect \<Rightarrow> rect \<Rightarrow> bool" where
  "between_y a t b \<longleftrightarrow>
     rect_bottom a \<le> ry t \<and> rect_bottom t \<le> ry b \<and> (share_columns a t \<or> share_columns b t)"

definition tunnels :: "rect \<Rightarrow> rect \<Rightarrow> rect \<Rightarrow> bool" where
  "tunnels start t dest \<longleftrightarrow>
     between_x start t dest \<or> between_x dest t start \<or>
     between_y start t dest \<or> between_y dest t start"

section \<open>The activation switch of an NPC\<close>

text \<open>
  A Python value as far as the setter tells values apart: \<^verbatim>\<open>status is True\<close> and
  \<^verbatim>\<open>status is False\<close> hold for the two booleans only, not for \<open>1\<close> or \<open>0\<close>.
\<close>

datatype pyval = PyBool bool | PyInt int | PyStr string | PyNone

datatype py_error = ValueError | AttributeError | KeyError

datatype 's outcome = Returned 's | Raised py_error 's

datatype hook = On_activation | On_deactivation

record npc =
  active_attr :: pyval

text \<open>
  The two hooks are methods a subclass overrides; they work on the object. The list
  beside the object records the hook calls made so far.
\<close>

record 's hooks =
  on_activation :: "'s \<Rightarrow> 's"
  on_deactivation :: "'s \<Rightarrow> 's"

definition NPC_hooks :: "'s hooks" where
  "NPC_hooks = \<lparr>on_activation = (\<lambda>self. self), on_deactivation = (\<lambda>self. self)\<rparr>"

definition NPC_init :: npc where
  "NPC_init = \<lparr>active_attr = PyBool False\<rparr>"

definition active :: "'m npc_scheme \<Rightarrow> pyval" where
  "active self = active_attr self"

definition active_setter ::
  "('m npc_scheme) hooks \<Rightarrow> pyval \<Rightarrow> 'm npc_scheme \<times> hook list \<Rightarrow>
     ('m npc_scheme \<times> hook list) outcome" where
  "active_setter hk status st =
     (let self = (fst st)\<lparr>active_attr := status\<rparr>;
          calls = snd st
      in if status = PyBool True then Returned (on_activation hk self, calls @ [On_activation])
         else if status = PyBool False then
           Returned (on_deactivation hk self, calls @ [On_deactivation])
         else Raised ValueError (self, calls))"

text \<open>
  A run of assignments to \<open>active\<close>, one after the other; the first one that
  raises ends the run. \<open>hook_for\<close> names the hook that belongs to a boolean.
\<close>

fun assign_all ::
  "('m npc_scheme) hooks \<Rightarrow> pyval list \<Rightarrow> 'm npc_scheme \<times> hook list \<Rightarrow>
     ('m npc_scheme \<times> hook list) outcome" where
  "assign_all hk [] st = Returned st"
| "assign_all hk (status # rest) st =
     (case active_setter hk status st of
        Returned st' \<Rightarrow> assign_all hk rest st'
      | Raised e st' \<Rightarrow> Raised e st')"

definition hook_for :: "bool \<Rightarrow> hook" where
  "hook_for b = (if b then On_activation else On_deactivation)"

section \<open>Tiles\<close>

text \<open>
  \<open>TileFlags\<close> is an integer flag set; \<^verbatim>\<open>flag in flags\<close> holds when every bit of
  the flag is set in the flags.
\<close>

definition NONE :: int where "NONE = 0"
definition SOLID :: int where "SOLID = 1"
definition DESTRUCTIBLE :: int where "DESTRUCTIBLE = 2"
definition ANIMATED :: int where "ANIMATED = 4"

definition flag_in :: "int \<Rightarrow> int \<Rightarrow> bool" where
  "flag_in flag flags \<longleftrightarrow> flag AND flags = flag"

text \<open>
  A tile over an image type \<open>'i\<close> and an animated-sprite type \<open>'s\<close>. The
  \<open>animatedsprite\<close> attribute exists only on tiles built with the animated flag.
\<close>

record ('i, 's) tile =
  tile_id :: int
  tile_flags :: int
  image :: 'i
  tile_rect :: rect
  animatedsprite :: "'s option"

text \<open>
  What the tile reaches outside itself: the tilesheet's sub-image for a tile id, an
  image's rectangle, the animated sprite's update and current image, the empty
  surface of tile size made at construction, and the constructor of an animated
  sprite from its frames (image, start time, duration).
\<close>

record ('i, 's) tile_env =
  get_tile_subsurface :: "int \<Rightarrow> 'i"
  get_rect :: "'i \<Rightarrow> rect"
  sprite_update :: "real \<Rightarrow> 's \<Rightarrow> 's"
  sprite_image :: "'s \<Rightarrow> 'i"
  blank_surface :: 'i
  make_sprite :: "('i \<times> real \<times> real) list \<Rightarrow> 's"

definition is_solid :: "('i, 's) tile \<Rightarrow> bool" where
  "is_solid t = flag_in SOLID (tile_flags t)"

definition is_destructible :: "('i, 's) tile \<Rightarrow> bool" where
  "is_destructible t = flag_in DESTRUCTIBLE (tile_flags t)"

definition is_animated :: "('i, 's) tile \<Rightarrow> bool" where
  "is_animated t = flag_in ANIMATED (tile_flags t)"

text \<open>
  The constructor's loop over \<^verbatim>\<open>metadata["animation"]\<close>: each frame starts where the
  durations before it end.
\<close>

fun animation_frames :: "(int \<Rightarrow> 'i) \<Rightarrow> real \<Rightarrow> (int \<times> real) list \<Rightarrow> ('i \<times> real \<times> real) list" where
  "animation_frames sub duration [] = []"
| "animation_frames sub duration ((tileid, tileduration) # rest) =
     (sub tileid, duration, tileduration) # animation_frames sub (duration + tileduration) rest"

text \<open>
  \<^verbatim>\<open>Tile.__init__\<close>; the metadata is given by the value under its \<^verbatim>\<open>"animation"\<close> key,
  \<open>None\<close> when the key is missing.
\<close>

definition Tile_init ::
  "('i, 's) tile_env \<Rightarrow> int \<Rightarrow> int \<Rightarrow> (int \<times> real) list option \<Rightarrow> ('i, 's) tile outcome" where
  "Tile_init env tid flags metadata =
     (let t = \<lparr>tile_id = tid, tile_flags = flags, image = blank_surface env,
                tile_rect = get_rect env (blank_surface env), animatedsprite = None\<rparr>
      in if is_animated t then
           (case metadata of
              None \<Rightarrow> Raised KeyError t
            | Some animation \<Rightarrow>
                Returned (t\<lparr>animatedsprite :=
                  Some (make_sprite env (animation_frames (get_tile_subsurface env) 0 animation))\<rparr>))
         else Returned t)"

text \<open>\<^verbatim>\<open>Tile.update(timedelta)\<close>.\<close>

definition update :: "('i, 's) tile_env \<Rightarrow> ('i, 's) tile \<Rightarrow> real \<Rightarrow> ('i, 's) tile outcome" where
  "update env t timedelta =
     (if tile_id t \<noteq> - 1 then
        (if is_animated t then
           (case animatedsprite t of
              None \<Rightarrow> Raised AttributeError t
            | Some s \<Rightarrow>
                (let s' = sprite_update env timedelta s;
                     t1 = t\<lparr>animatedsprite := Some s'\<rparr>;
                     t2 = t1\<lparr>image := sprite_image env s'\<rparr>
                 in Returned (t2\<lparr>tile_rect := get_rect env (image t2)\<rparr>)))
         else
           (let t1 = t\<lparr>image := get_tile_subsurface env (tile_id t)\<rparr>
            in Returned (t1\<lparr>tile_rect := get_rect env (image t1)\<rparr>)))
      else Returned t)"


section \<open>Auxiliary notions for the statements\<close>

text \<open>
  The speed factor a pass uses when \<open>adj_speed\<close> holds \<open>adj\<close> on entry, the record of
  that pass, and the walkabout a committing pass leaves behind.
\<close>

definition pass_adj :: "real \<Rightarrow> int \<Rightarrow> real" where
  "pass_adj adj pixels = (if pixels = 2 then 1 else adj)"

definition pass_probe :: "direction \<Rightarrow> walkabout \<Rightarrow> real \<Rightarrow> int \<Rightarrow> probe" where
  "pass_probe d w adj pixels =
     (let dest = Rect_at (offset_topleft d (topleft_float w)
                   (real_of_int pixels * pass_adj adj pixels)) (size_w w)
      in \<lparr>p_pixels = pixels, p_adj_speed = pass_adj adj pixels,
          p_destination = dest, p_collision = rect_union (rect w) dest\<rparr>)"

definition commit ::
  "(walkabout \<Rightarrow> int \<times> int) \<Rightarrow> direction \<Rightarrow> walkabout \<Rightarrow> probe \<Rightarrow> walkabout" where
  "commit lfs d w pr =
     w\<lparr>action := Walk, size_w := lfs (w\<lparr>action := Walk\<rparr>), rect := p_destination pr,
       topleft_float := offset_topleft d (topleft_float w)
                          (real_of_int (p_pixels pr) * p_adj_speed pr)\<rparr>"

text \<open>Concrete surroundings for the examples: a grid that blocks everything, an
  animation whose largest frame is 16 by 16 or 20 by 24, and an actor standing at a
  position with a size and a velocity, its rectangle in step with its position.\<close>

definition blocked_all :: "rect \<Rightarrow> bool" where
  "blocked_all r = True"

definition frame_16 :: "walkabout \<Rightarrow> int \<times> int" where
  "frame_16 w = (16, 16)"

definition frame_20_24 :: "walkabout \<Rightarrow> int \<times> int" where
  "frame_20_24 w = (20, 24)"

definition actor_at :: "real \<times> real \<Rightarrow> int \<times> int \<Rightarrow> velocity \<Rightarrow> actor" where
  "actor_at p sz v =
     \<lparr>walkabout = \<lparr>direction = South, action = Stand, topleft_float = p,
                   size_w = sz, rect = Rect_at p sz\<rparr>,
      velocity = v\<rparr>"

text \<open>The actor after \<open>n\<close> calls of \<open>move\<close> with the same surroundings and direction.\<close>

primrec move_times ::
  "(rect \<Rightarrow> bool) \<Rightarrow> (walkabout \<Rightarrow> int \<times> int) \<Rightarrow> real \<Rightarrow> direction \<Rightarrow> nat \<Rightarrow> actor \<Rightarrow> actor" where
  "move_times cc lfs el d 0 a = a"
| "move_times cc lfs el d (Suc n) a = snd (move cc lfs el (move_times cc lfs el d n a) d)"

text \<open>
  Example surroundings for tiles: images are named by their tile id (\<open>- 1\<close> for
  the empty surface), every image is 32 by 32, and the animated sprite is its elapsed
  time with its frames, showing the frame whose interval holds the elapsed time.
\<close>

definition demo_env :: "(int, real \<times> (int \<times> real \<times> real) list) tile_env" where
  "demo_env =
     \<lparr>get_tile_subsurface = (\<lambda>tid. tid),
      get_rect = (\<lambda>img. Rect 0 0 32 32),
      sprite_update = (\<lambda>dt s. (fst s + dt, snd s)),
      sprite_image = (\<lambda>s. case filter (\<lambda>f. fst (snd f) \<le> fst s \<and> fst s < fst (snd f) + snd (snd f)) (snd s) of
                            [] \<Rightarrow> - 1 | f # fs \<Rightarrow> fst f),
      blank_surface = - 1,
      make_sprite = (\<lambda>frames. (0, frames))\<rparr>"

definition blank_solid_tile :: "(int, real \<times> (int \<times> real \<times> real) list) tile" where
  "blank_solid_tile =
     \<lparr>tile_id = - 1, tile_flags = 1, image = - 1, tile_rect = Rect 0 0 32 32,
      animatedsprite = None\<rparr>"

definition static_tile :: "(int, real \<times> (int \<times> real \<times> real) list) tile" where
  "static_tile =
     \<lparr>tile_id = 7, tile_flags = 3, image = - 1, tile_rect = Rect 0 0 32 32,
      animatedsprite = None\<rparr>"

definition animated_tile :: "(int, real \<times> (int \<times> real \<times> real) list) tile" where
  "animated_tile =
     \<lparr>tile_id = 3, tile_flags = 4, image = - 1, tile_rect = Rect 0 0 32 32,
      animatedsprite = Some (0, [(3, 0, 100), (4, 100, 100)])\<rparr>"

section \<open>Facts about the loop\<close>

lemma range_down_step: "stop < start \<Longrightarrow> range_down start stop = start # range_down (start - 1) stop"
  by (simp add: range_down_def upto_rec2)

lemma range_down_empty: "start \<le> stop \<Longrightarrow> range_down start stop = []"
  by (simp add: range_down_def)

lemma set_range_down: "set (range_down start stop) = {stop + 1 .. start}"
  by (simp add: range_down_def)

lemma length_range_down: "length (range_down start stop) = nat (start - stop)"
  by (simp add: range_down_def)

lemma range_down_sorted: "sorted_wrt (\<lambda>x y. y < x) (range_down start stop)"
  by (simp add: range_down_def sorted_wrt_rev) 

lemma fst_move_loop_Cons:
  "fst (move_loop cc lfs d w adj (c # cs)) =
     (if cc (p_collision (pass_probe d w adj c))
      then pass_probe d w adj c # fst (move_loop cc lfs d w (pass_adj adj c) cs)
      else [pass_probe d w adj c])"
  by (simp add: pass_probe_def pass_adj_def Let_def split: prod.splits)

lemma snd_move_loop_Cons:
  "snd (move_loop cc lfs d w adj (c # cs)) =
     (if cc (p_collision (pass_probe d w adj c))
      then snd (move_loop cc lfs d w (pass_adj adj c) cs)
      else Some (commit lfs d w (pass_probe d w adj c)))"
  by (simp add: pass_probe_def pass_adj_def commit_def Let_def split: prod.splits)

lemmas move_loop_Cons = fst_move_loop_Cons snd_move_loop_Cons

lemma move_loop_pixels:
  "map p_pixels (fst (move_loop cc lfs d w adj cs)) = take (length (fst (move_loop cc lfs d w adj cs))) cs"
  by (induction cs arbitrary: adj) (simp_all add: move_loop_Cons pass_probe_def Let_def del: move_loop.simps(2))

lemma move_loop_nonempty: "cs \<noteq> [] \<Longrightarrow> fst (move_loop cc lfs d w adj cs) \<noteq> []"
  by (cases cs) (simp_all add: move_loop_Cons del: move_loop.simps(2))

lemma move_loop_length: "length (fst (move_loop cc lfs d w adj cs)) \<le> length cs"
  by (induction cs arbitrary: adj) (simp_all add: move_loop_Cons del: move_loop.simps(2))

lemma move_loop_None_all:
  "snd (move_loop cc lfs d w adj cs) = None \<Longrightarrow> map p_pixels (fst (move_loop cc lfs d w adj cs)) = cs"
  by (induction cs arbitrary: adj)
     (simp_all add: move_loop_Cons pass_probe_def Let_def del: move_loop.simps(2) split: if_splits)

lemma move_loop_None_iff:
  "snd (move_loop cc lfs d w adj cs) = None \<longleftrightarrow> (\<forall>pr \<in> set (fst (move_loop cc lfs d w adj cs)). cc (p_collision pr))"
  by (induction cs arbitrary: adj) (simp_all add: move_loop_Cons del: move_loop.simps(2))

lemma move_loop_probe_shape:
  "pr \<in> set (fst (move_loop cc lfs d w adj cs)) \<Longrightarrow>
     p_destination pr = Rect_at (offset_topleft d (topleft_float w) (real_of_int (p_pixels pr) * p_adj_speed pr)) (size_w w)
     \<and> p_collision pr = rect_union (rect w) (p_destination pr)"
proof (induction cs arbitrary: adj)
  case Nil
  then show ?case by simp
next
  case (Cons c cs)
  from Cons.prems have "pr = pass_probe d w adj c \<or> pr \<in> set (fst (move_loop cc lfs d w (pass_adj adj c) cs))"
    by (simp add: move_loop_Cons del: move_loop.simps(2) split: if_splits)
  then show ?case
  proof
    assume "pr = pass_probe d w adj c"
    then show ?thesis by (simp add: pass_probe_def Let_def)
  next
    assume "pr \<in> set (fst (move_loop cc lfs d w (pass_adj adj c) cs))"
    then show ?thesis by (rule Cons.IH)
  qed
qed

lemma move_loop_Some:
  "snd (move_loop cc lfs d w adj cs) = Some w' \<Longrightarrow>
     last (fst (move_loop cc lfs d w adj cs)) \<in> set (fst (move_loop cc lfs d w adj cs)) \<and>
     \<not> cc (p_collision (last (fst (move_loop cc lfs d w adj cs)))) \<and>
     w' = commit lfs d w (last (fst (move_loop cc lfs d w adj cs)))"
proof (induction cs arbitrary: adj)
  case Nil
  then show ?case by simp
next
  case (Cons c cs)
  show ?case
  proof (cases "cc (p_collision (pass_probe d w adj c))")
    case False
    with Cons.prems show ?thesis by (simp add: move_loop_Cons del: move_loop.simps(2))
  next
    case True
    with Cons.prems have s: "snd (move_loop cc lfs d w (pass_adj adj c) cs) = Some w'"
      by (simp add: move_loop_Cons del: move_loop.simps(2))
    then have "cs \<noteq> []" by auto
    then have ne: "fst (move_loop cc lfs d w (pass_adj adj c) cs) \<noteq> []"
      by (rule move_loop_nonempty)
    from Cons.IH [OF s] True ne show ?thesis
      by (simp add: move_loop_Cons del: move_loop.simps(2))
  qed
qed

lemma move_loop_adj:
  "sorted_wrt (\<lambda>x y. y < x) cs \<Longrightarrow> pr \<in> set (fst (move_loop cc lfs d w adj cs)) \<Longrightarrow>
     p_adj_speed pr = (if p_pixels pr = 2 \<or> (p_pixels pr < 2 \<and> 2 \<in> set cs) then 1 else adj)"
proof (induction cs arbitrary: adj)
  case Nil
  then show ?case by simp
next
  case (Cons c cs)
  let ?tl = "fst (move_loop cc lfs d w (pass_adj adj c) cs)"
  from Cons.prems(2) consider (hd) "pr = pass_probe d w adj c" | (tl) "pr \<in> set ?tl"
    by (auto simp add: move_loop_Cons simp del: move_loop.simps(2) split: if_splits)
  then show ?case
  proof cases
    case hd
    with Cons.prems(1) show ?thesis by (auto simp: pass_probe_def pass_adj_def Let_def)
  next
    case tl
    have "p_pixels pr \<in> set (map p_pixels ?tl)" using tl by simp
    then have "p_pixels pr \<in> set cs"
      using move_loop_pixels [of cc lfs d w "pass_adj adj c" cs] by (metis in_set_takeD)
    with Cons.prems(1) have lt: "p_pixels pr < c" by auto
    from Cons.prems(1) have "sorted_wrt (\<lambda>x y. y < x) cs" by simp
    from Cons.IH [OF this tl] lt show ?thesis by (auto simp: pass_adj_def)
  qed
qed

lemma pass_probe_cong:
  "topleft_float w = topleft_float w2 \<Longrightarrow> size_w w = size_w w2 \<Longrightarrow> rect w = rect w2 \<Longrightarrow>
   pass_probe d w adj c = pass_probe d w2 adj c"
  by (simp add: pass_probe_def)

lemma move_loop_cong:
  "topleft_float w = topleft_float w2 \<Longrightarrow> size_w w = size_w w2 \<Longrightarrow> rect w = rect w2 \<Longrightarrow>
   fst (move_loop cc lfs d w adj cs) = fst (move_loop cc lfs d w2 adj cs) \<and>
   (snd (move_loop cc lfs d w adj cs) = None \<longleftrightarrow> snd (move_loop cc lfs d w2 adj cs) = None)"
  by (induction cs arbitrary: adj)
     (simp_all add: move_loop_Cons pass_probe_cong [of w w2] del: move_loop.simps(2))

lemma py_int_max_floor: "max 1 (py_int v) = max 1 \<lfloor>v\<rfloor>"
proof (cases "0 \<le> v")
  case True
  then show ?thesis by (simp add: py_int_def)
next
  case False
  then have "\<lfloor>v\<rfloor> \<le> 0" "\<lceil>v\<rceil> \<le> 0" by (simp_all add: floor_le_iff ceiling_le_iff)
  with False show ?thesis by (simp add: py_int_def)
qed

lemma iter_pixels_floor: "iter_pixels a d = max 1 \<lfloor>planned_movement_in_pixels a d\<rfloor>"
  by (simp add: iter_pixels_def py_int_max_floor)

section \<open>The degrading search\<close>

text \<open>
  C5. The step counts a call tries are \<open>max 1 \<lfloor>planned\<rfloor>\<close> counting down towards 1:
  the passes made are a non-empty initial part of that countdown (the search stops at
  the first free candidate), all of it when the call returns false, never 0, and
  exactly the 1-pixel candidate when the planned movement is not positive. So every
  call makes a finite, positive number of passes.
\<close>

theorem candidates_count_down:
  "map p_pixels (move_probes cc lfs el a d) =
     take (length (move_probes cc lfs el a d))
       (rev [1 .. max 1 \<lfloor>planned_movement_in_pixels a d\<rfloor>])
   \<and> 1 \<le> length (move_probes cc lfs el a d)
   \<and> int (length (move_probes cc lfs el a d)) \<le> max 1 \<lfloor>planned_movement_in_pixels a d\<rfloor>
   \<and> 0 \<notin> set (map p_pixels (move_probes cc lfs el a d))
   \<and> (\<not> fst (move cc lfs el a d) \<longrightarrow>
        map p_pixels (move_probes cc lfs el a d) =
          rev [1 .. max 1 \<lfloor>planned_movement_in_pixels a d\<rfloor>])
   \<and> (planned_movement_in_pixels a d \<le> 0 \<longrightarrow> map p_pixels (move_probes cc lfs el a d) = [1])"
proof -
  let ?n = "max 1 \<lfloor>planned_movement_in_pixels a d\<rfloor>"
  let ?cs = "range_down (iter_pixels a d) 0"
  let ?w = "(walkabout a)\<lparr>direction := d\<rparr>"
  let ?run = "move_loop cc lfs d ?w (el / 1000) ?cs"
  have cs: "?cs = rev [1 .. ?n]"
    by (simp add: range_down_def iter_pixels_floor)
  have probes: "move_probes cc lfs el a d = fst ?run"
    by (simp add: move_probes_def move_run_def)
  have ne: "?cs \<noteq> []"
    by (simp add: cs)
  have len_cs: "int (length ?cs) = ?n"
    by (simp add: cs)
  have pre: "map p_pixels (fst ?run) = take (length (fst ?run)) ?cs"
    by (rule move_loop_pixels)
  have c1: "map p_pixels (move_probes cc lfs el a d) =
      take (length (move_probes cc lfs el a d)) (rev [1 .. ?n])"
    using pre by (simp only: probes cs)
  have "fst ?run \<noteq> []"
    using ne by (rule move_loop_nonempty)
  then have c2: "1 \<le> length (move_probes cc lfs el a d)"
    by (cases "fst ?run") (simp_all add: probes)
  have "length (fst ?run) \<le> length ?cs"
    by (rule move_loop_length)
  then have c3: "int (length (move_probes cc lfs el a d)) \<le> ?n"
    using len_cs by (simp add: probes)
  have "set (map p_pixels (fst ?run)) \<subseteq> set ?cs"
    using pre by (metis set_take_subset)
  then have c4: "0 \<notin> set (map p_pixels (move_probes cc lfs el a d))"
    unfolding probes by (auto simp: set_range_down)
  have c5: "\<not> fst (move cc lfs el a d) \<longrightarrow> map p_pixels (move_probes cc lfs el a d) = rev [1 .. ?n]"
  proof
    assume "\<not> fst (move cc lfs el a d)"
    then have "snd ?run = None"
      by (simp add: move_def move_run_def split: option.splits)
    then have "map p_pixels (fst ?run) = ?cs"
      by (rule move_loop_None_all)
    then show "map p_pixels (move_probes cc lfs el a d) = rev [1 .. ?n]"
      by (simp only: probes cs)
  qed
  have c6: "planned_movement_in_pixels a d \<le> 0 \<longrightarrow> map p_pixels (move_probes cc lfs el a d) = [1]"
  proof
    assume "planned_movement_in_pixels a d \<le> 0"
    then have "\<lfloor>planned_movement_in_pixels a d\<rfloor> \<le> 0"
      by (simp add: floor_le_iff)
    then have n1: "?n = 1" by simp
    from c2 c3 n1 have "length (move_probes cc lfs el a d) = 1" by simp
    with c1 n1 show "map p_pixels (move_probes cc lfs el a d) = [1]" by simp
  qed
  from c1 c2 c3 c4 c5 c6 show ?thesis by blast
qed

theorem candidates_count_down_witness:
  "\<not> fst (move blocked_all frame_16 16 (actor_at (100, 100) (16, 16) (Velocity (- 3) 0)) East)
   \<and> planned_movement_in_pixels (actor_at (100, 100) (16, 16) (Velocity (- 3) 0)) East \<le> 0
   \<and> map p_pixels (move_probes blocked_all frame_16 16 (actor_at (100, 100) (16, 16) (Velocity (- 3) 0)) East) = [1]"
proof -
  have p: "planned_movement_in_pixels (actor_at (100, 100) (16, 16) (Velocity (- 3) 0)) East \<le> 0"
    by (simp add: planned_movement_in_pixels_def actor_at_def)
  moreover have "\<not> fst (move blocked_all frame_16 16 (actor_at (100, 100) (16, 16) (Velocity (- 3) 0)) East)"
    by (simp add: move_def move_run_def iter_pixels_def planned_movement_in_pixels_def actor_at_def
        py_int_def range_down_def blocked_all_def Let_def)
  ultimately show ?thesis
    using candidates_count_down [of blocked_all frame_16 16 "actor_at (100, 100) (16, 16) (Velocity (- 3) 0)" East]
    by blast
qed

section \<open>What a call of move leaves behind\<close>

lemma move_False_iff:
  "\<not> fst (move cc lfs el a d) \<longleftrightarrow> (\<forall>pr \<in> set (move_probes cc lfs el a d). cc (p_collision pr))"
proof -
  have "\<not> fst (move cc lfs el a d) \<longleftrightarrow> snd (move_run cc lfs el a d) = None"
    by (simp add: move_def split: option.splits)
  then show ?thesis
    by (simp add: move_probes_def move_run_def move_loop_None_iff)
qed

lemma move_False_result:
  "\<not> fst (move cc lfs el a d) \<Longrightarrow>
     move cc lfs el a d = (False, a\<lparr>walkabout := (walkabout a)\<lparr>direction := d, action := Stand\<rparr>\<rparr>)"
  by (simp add: move_def split: option.splits)

lemma move_probes_stand:
  "move_probes cc lfs el (a\<lparr>walkabout := (walkabout a)\<lparr>direction := d', action := act\<rparr>\<rparr>) d =
   move_probes cc lfs el a d"
proof -
  let ?a' = "a\<lparr>walkabout := (walkabout a)\<lparr>direction := d', action := act\<rparr>\<rparr>"
  have ip: "iter_pixels ?a' d = iter_pixels a d"
    by (simp add: iter_pixels_def planned_movement_in_pixels_def)
  have "fst (move_loop cc lfs d ((walkabout ?a')\<lparr>direction := d\<rparr>) (el / 1000)
               (range_down (iter_pixels a d) 0)) =
        fst (move_loop cc lfs d ((walkabout a)\<lparr>direction := d\<rparr>) (el / 1000)
               (range_down (iter_pixels a d) 0))"
    by (rule move_loop_cong [THEN conjunct1]) simp_all
  then show ?thesis
    by (simp only: move_probes_def move_run_def ip)
qed

lemma blocked_fixpoint:
  assumes "\<forall>pr \<in> set (move_probes cc lfs el a d). cc (p_collision pr)"
  defines "a' \<equiv> a\<lparr>walkabout := (walkabout a)\<lparr>direction := d, action := Stand\<rparr>\<rparr>"
  shows "move cc lfs el a d = (False, a')" and "move cc lfs el a' d = (False, a')"
proof -
  from assms(1) have "\<not> fst (move cc lfs el a d)" by (simp add: move_False_iff)
  then show "move cc lfs el a d = (False, a')"
    unfolding a'_def by (rule move_False_result)
  have "move_probes cc lfs el a' d = move_probes cc lfs el a d"
    unfolding a'_def by (rule move_probes_stand)
  with assms(1) have "\<not> fst (move cc lfs el a' d)" by (simp add: move_False_iff)
  then have "move cc lfs el a' d = (False, a'\<lparr>walkabout := (walkabout a')\<lparr>direction := d, action := Stand\<rparr>\<rparr>)"
    by (rule move_False_result)
  then show "move cc lfs el a' d = (False, a')"
    by (simp add: a'_def)
qed

lemma blocked_move_times:
  assumes "\<forall>pr \<in> set (move_probes cc lfs el a d). cc (p_collision pr)"
  shows "move_times cc lfs el d (Suc n) a = a\<lparr>walkabout := (walkabout a)\<lparr>direction := d, action := Stand\<rparr>\<rparr>"
proof (induction n)
  case 0
  from blocked_fixpoint(1) [OF assms] show ?case by simp
next
  case (Suc n)
  from blocked_fixpoint(2) [OF assms] Suc show ?case by simp
qed

lemma move_True_commit:
  assumes "move cc lfs el a d = (True, a')"
  defines "w \<equiv> (walkabout a)\<lparr>direction := d\<rparr>"
  defines "pr \<equiv> last (move_probes cc lfs el a d)"
  shows "pr \<in> set (move_probes cc lfs el a d)" and "\<not> cc (p_collision pr)"
    and "a' = a\<lparr>walkabout := commit lfs d w pr\<rparr>"
proof -
  from assms(1) obtain w' where s: "snd (move_run cc lfs el a d) = Some w'" and a': "a' = a\<lparr>walkabout := w'\<rparr>"
    by (auto simp: move_def split: option.splits)
  from s have "snd (move_loop cc lfs d w (el / 1000) (range_down (iter_pixels a d) 0)) = Some w'"
    by (simp add: move_run_def w_def)
  from move_loop_Some [OF this]
  have "pr \<in> set (move_probes cc lfs el a d) \<and> \<not> cc (p_collision pr) \<and> w' = commit lfs d w pr"
    by (simp add: pr_def move_probes_def move_run_def w_def)
  with a' show "pr \<in> set (move_probes cc lfs el a d)" and "\<not> cc (p_collision pr)"
    and "a' = a\<lparr>walkabout := commit lfs d w pr\<rparr>"
    by simp_all
qed

lemma move_probes_shape:
  "pr \<in> set (move_probes cc lfs el a d) \<Longrightarrow>
     p_destination pr = Rect_at (offset_topleft d (topleft_float (walkabout a))
                          (real_of_int (p_pixels pr) * p_adj_speed pr)) (size_w (walkabout a))
     \<and> p_collision pr = rect_union (rect (walkabout a)) (p_destination pr)"
  using move_loop_probe_shape [of pr cc lfs d "(walkabout a)\<lparr>direction := d\<rparr>" "el / 1000" "range_down (iter_pixels a d) 0"]
  by (simp add: move_probes_def move_run_def)

lemma move_True_union:
  assumes "move cc lfs el a d = (True, a')"
  shows "\<not> cc (rect_union (rect (walkabout a)) (rect (walkabout a')))"
    and "rect (walkabout a') = p_destination (last (move_probes cc lfs el a d))"
proof -
  let ?pr = "last (move_probes cc lfs el a d)"
  note c = move_True_commit [OF assms]
  from c(3) show r: "rect (walkabout a') = p_destination ?pr"
    by (simp add: commit_def)
  from move_probes_shape [OF c(1)] have "p_collision ?pr = rect_union (rect (walkabout a)) (p_destination ?pr)"
    by simp
  with c(2) r show "\<not> cc (rect_union (rect (walkabout a)) (rect (walkabout a')))"
    by simp
qed

subsection \<open>Rectangle geometry\<close>

lemma rect_right_union: "rect_right (rect_union a b) = max (rect_right a) (rect_right b)"
  by (simp add: rect_union_def rect_right_def Let_def)

lemma rect_bottom_union: "rect_bottom (rect_union a b) = max (rect_bottom a) (rect_bottom b)"
  by (simp add: rect_union_def rect_bottom_def Let_def)

lemma rx_union: "rx (rect_union a b) = min (rx a) (rx b)"
  by (simp add: rect_union_def Let_def)

lemma ry_union: "ry (rect_union a b) = min (ry a) (ry b)"
  by (simp add: rect_union_def Let_def)

lemmas union_edges = rect_right_union rect_bottom_union rx_union ry_union

lemma between_x_collides:
  assumes "between_x a t b" "0 \<le> rw a" "0 \<le> rw b" "0 < rw t"
  shows "colliderect (rect_union a b) t" and "colliderect (rect_union b a) t"
  using assms unfolding between_x_def share_rows_def colliderect_def union_edges
  by (auto simp: rect_right_def)

lemma between_y_collides:
  assumes "between_y a t b" "0 \<le> rh a" "0 \<le> rh b" "0 < rh t"
  shows "colliderect (rect_union a b) t" and "colliderect (rect_union b a) t"
  using assms unfolding between_y_def share_columns_def colliderect_def union_edges
  by (auto simp: rect_bottom_def)

lemma tunnels_collides:
  assumes "tunnels a t b" "0 \<le> rw a" "0 \<le> rh a" "0 \<le> rw b" "0 \<le> rh b" "0 < rw t" "0 < rh t"
  shows "colliderect (rect_union a b) t"
  using assms between_x_collides [of a t b] between_x_collides [of b t a]
    between_y_collides [of a t b] between_y_collides [of b t a]
  unfolding tunnels_def by blast

lemma intersects_solid_iff: "intersects_solid solids r \<longleftrightarrow> (\<exists>t \<in> set solids. colliderect r t)"
  by (simp add: intersects_solid_def list_ex_iff)

subsection \<open>Worked calls\<close>

text \<open>
  A wall two pixels thin right of the actor and a planned step of 20 pixels; a grid
  that blocks everything with a planned step of 3 pixels at half speed; and a free
  step of 5 pixels where the animation's largest frame is bigger than the actor.
\<close>

lemmas move_eval =
  move_def move_run_def move_probes_def iter_pixels_def planned_movement_in_pixels_def
  py_int_def range_down_def Rect_at_def rect_union_def intersects_solid_def colliderect_def
  rect_right_def rect_bottom_def actor_at_def Let_def upto_rec1

lemma thin_wall_move:
  "move (intersects_solid [Rect 117 100 2 16]) frame_16 1000
     (actor_at (100, 100) (16, 16) (Velocity 20 0)) East =
   (True, \<lparr>walkabout = \<lparr>direction = East, action = Walk, topleft_float = (101, 100),
                         size_w = (16, 16), rect = Rect 101 100 16 16\<rparr>,
           velocity = Velocity 20 0\<rparr>)"
  by (simp add: move_eval frame_16_def)

lemma sticky_probes:
  "move_probes blocked_all frame_16 500 (actor_at (100, 100) (16, 16) (Velocity 3 0)) East =
     [\<lparr>p_pixels = 3, p_adj_speed = 1 / 2, p_destination = Rect 101 100 16 16,
        p_collision = Rect 100 100 17 16\<rparr>,
      \<lparr>p_pixels = 2, p_adj_speed = 1, p_destination = Rect 102 100 16 16,
        p_collision = Rect 100 100 18 16\<rparr>,
      \<lparr>p_pixels = 1, p_adj_speed = 1, p_destination = Rect 101 100 16 16,
        p_collision = Rect 100 100 17 16\<rparr>]"
  by (simp add: move_eval blocked_all_def)

lemma grow_move:
  "move (intersects_solid []) frame_20_24 1000 (actor_at (100, 100) (16, 16) (Velocity 5 0)) East =
   (True, \<lparr>walkabout = \<lparr>direction = East, action = Walk, topleft_float = (105, 100),
                         size_w = (20, 24), rect = Rect 105 100 16 16\<rparr>,
           velocity = Velocity 5 0\<rparr>)"
  by (simp add: move_eval frame_20_24_def)

section \<open>No tunnelling\<close>

text \<open>
  C1. Every collision query of a call is made with the union of the actor's current
  rectangle and the destination rectangle of that pass. When the call commits and
  returns true, the collision query is false on the union of the rectangle before
  and the rectangle after; with the grid answering "intersects a solid tile", no
  solid tile meets that union, so no solid tile of positive size lies between the
  start and the end rectangle of an actor of non-negative size, along either axis.
\<close>

theorem union_tested_no_tunnel:
  "(\<forall>pr \<in> set (move_probes cc lfs el a d).
       p_destination pr = Rect_at (offset_topleft d (topleft_float (walkabout a))
                            (real_of_int (p_pixels pr) * p_adj_speed pr)) (size_w (walkabout a))
       \<and> p_collision pr = rect_union (rect (walkabout a)) (p_destination pr))
   \<and> (move cc lfs el a d = (True, a') \<longrightarrow>
        \<not> cc (rect_union (rect (walkabout a)) (rect (walkabout a'))))
   \<and> (move (intersects_solid solids) lfs el a d = (True, a') \<longrightarrow>
        (\<forall>t \<in> set solids.
           \<not> colliderect (rect_union (rect (walkabout a)) (rect (walkabout a'))) t
           \<and> (0 \<le> rw (rect (walkabout a)) \<and> 0 \<le> rh (rect (walkabout a))
              \<and> 0 \<le> fst (size_w (walkabout a)) \<and> 0 \<le> snd (size_w (walkabout a))
              \<and> 0 < rw t \<and> 0 < rh t
              \<longrightarrow> \<not> tunnels (rect (walkabout a)) t (rect (walkabout a')))))"
proof (intro conjI ballI impI)
  fix pr assume "pr \<in> set (move_probes cc lfs el a d)"
  from move_probes_shape [OF this]
  show "p_destination pr = Rect_at (offset_topleft d (topleft_float (walkabout a))
          (real_of_int (p_pixels pr) * p_adj_speed pr)) (size_w (walkabout a))"
    and "p_collision pr = rect_union (rect (walkabout a)) (p_destination pr)"
    by simp_all
next
  assume "move cc lfs el a d = (True, a')"
  then show "\<not> cc (rect_union (rect (walkabout a)) (rect (walkabout a')))"
    by (rule move_True_union(1))
next
  fix t assume m: "move (intersects_solid solids) lfs el a d = (True, a')" and t: "t \<in> set solids"
  from move_True_union(1) [OF m] t
  show free: "\<not> colliderect (rect_union (rect (walkabout a)) (rect (walkabout a'))) t"
    by (auto simp: intersects_solid_iff)
  assume sz: "0 \<le> rw (rect (walkabout a)) \<and> 0 \<le> rh (rect (walkabout a))
              \<and> 0 \<le> fst (size_w (walkabout a)) \<and> 0 \<le> snd (size_w (walkabout a))
              \<and> 0 < rw t \<and> 0 < rh t"
  let ?pr = "last (move_probes (intersects_solid solids) lfs el a d)"
  have "?pr \<in> set (move_probes (intersects_solid solids) lfs el a d)"
    using m by (rule move_True_commit(1))
  from move_probes_shape [OF this] move_True_union(2) [OF m]
  have "rw (rect (walkabout a')) = fst (size_w (walkabout a))"
    and "rh (rect (walkabout a')) = snd (size_w (walkabout a))"
    by (simp_all add: Rect_at_def)
  with sz have "0 \<le> rw (rect (walkabout a'))" "0 \<le> rh (rect (walkabout a'))" by simp_all
  with sz free tunnels_collides [of "rect (walkabout a)" t "rect (walkabout a')"]
  show "\<not> tunnels (rect (walkabout a)) t (rect (walkabout a'))"
    by blast
qed

theorem union_tested_no_tunnel_witness:
  "last (move_probes (intersects_solid [Rect 117 100 2 16]) frame_16 1000
        (actor_at (100, 100) (16, 16) (Velocity 20 0)) East)
     \<in> set (move_probes (intersects_solid [Rect 117 100 2 16]) frame_16 1000
        (actor_at (100, 100) (16, 16) (Velocity 20 0)) East)
   \<and> p_collision (last (move_probes (intersects_solid [Rect 117 100 2 16]) frame_16 1000
        (actor_at (100, 100) (16, 16) (Velocity 20 0)) East)) =
      rect_union (Rect 100 100 16 16)
        (p_destination (last (move_probes (intersects_solid [Rect 117 100 2 16]) frame_16 1000
           (actor_at (100, 100) (16, 16) (Velocity 20 0)) East)))
   \<and> move (intersects_solid [Rect 117 100 2 16]) frame_16 1000
        (actor_at (100, 100) (16, 16) (Velocity 20 0)) East =
      (True, \<lparr>walkabout = \<lparr>direction = East, action = Walk, topleft_float = (101, 100),
                            size_w = (16, 16), rect = Rect 101 100 16 16\<rparr>,
              velocity = Velocity 20 0\<rparr>)
   \<and> Rect 117 100 2 16 \<in> set [Rect 117 100 2 16]
   \<and> tunnels (Rect 100 100 16 16) (Rect 117 100 2 16) (Rect 120 100 16 16)
   \<and> \<not> colliderect (rect_union (Rect 100 100 16 16) (Rect 101 100 16 16)) (Rect 117 100 2 16)
   \<and> \<not> tunnels (Rect 100 100 16 16) (Rect 117 100 2 16) (Rect 101 100 16 16)"
proof -
  let ?a = "actor_at (100, 100) (16, 16) (Velocity 20 0)"
  let ?a' = "\<lparr>walkabout = \<lparr>direction = East, action = Walk, topleft_float = (101, 100),
                            size_w = (16, 16), rect = Rect 101 100 16 16\<rparr>,
              velocity = Velocity 20 0\<rparr>"
  let ?ps = "move_probes (intersects_solid [Rect 117 100 2 16]) frame_16 1000 ?a East"
  have start: "rect (walkabout ?a) = Rect 100 100 16 16" "size_w (walkabout ?a) = (16, 16)"
    by (simp_all add: actor_at_def Rect_at_def py_int_def)
  have full: "tunnels (Rect 100 100 16 16) (Rect 117 100 2 16) (Rect 120 100 16 16)"
    by (simp add: tunnels_def between_x_def share_rows_def rect_right_def rect_bottom_def)
  have mem: "last ?ps \<in> set ?ps"
    using thin_wall_move by (rule move_True_commit(1))
  note t = union_tested_no_tunnel [of "intersects_solid [Rect 117 100 2 16]" frame_16 1000 ?a East ?a'
      "[Rect 117 100 2 16]"]
  from t mem have "p_collision (last ?ps) = rect_union (rect (walkabout ?a)) (p_destination (last ?ps))"
    by blast
  then have q: "p_collision (last ?ps) = rect_union (Rect 100 100 16 16) (p_destination (last ?ps))"
    by (simp only: start)
  from t thin_wall_move start
  have free: "\<not> colliderect (rect_union (Rect 100 100 16 16) (Rect 101 100 16 16)) (Rect 117 100 2 16)
     \<and> \<not> tunnels (Rect 100 100 16 16) (Rect 117 100 2 16) (Rect 101 100 16 16)"
    by simp
  from mem q thin_wall_move full free show ?thesis by simp
qed

section \<open>The speed factor\<close>

text \<open>
  C3 as the specification words it does not hold: with a planned step of 3 pixels
  and 500 milliseconds elapsed, the third pass tries 1 pixel and multiplies it with
  1, not with 500 / 1000.
\<close>

theorem speed_factor_counterexample:
  "p_pixels (move_probes blocked_all frame_16 500
      (actor_at (100, 100) (16, 16) (Velocity 3 0)) East ! 2) = 1
   \<and> p_adj_speed (move_probes blocked_all frame_16 500
      (actor_at (100, 100) (16, 16) (Velocity 3 0)) East ! 2) = 1
   \<and> p_adj_speed (move_probes blocked_all frame_16 500
      (actor_at (100, 100) (16, 16) (Velocity 3 0)) East ! 2) \<noteq> 500 / 1000"
  by (simp add: sticky_probes)

text \<open>
  C3, amended. The factor of a pass is 1 for the step count 2 and for the step
  count 1 whenever the search started at 2 or more (the assignment under
  \<^verbatim>\<open>if pixels == 2\<close> stays in force for the pass after it); it is the elapsed
  milliseconds divided by 1000 for every step count above 2, and for the step count 1
  when that is the only candidate.
\<close>

theorem speed_factor_sticks:
  "\<forall>pr \<in> set (move_probes cc lfs el a d).
     p_adj_speed pr =
       (if p_pixels pr = 2 \<or> (p_pixels pr = 1 \<and> 2 \<le> iter_pixels a d) then 1 else el / 1000)"
proof
  fix pr assume pr: "pr \<in> set (move_probes cc lfs el a d)"
  let ?cs = "range_down (iter_pixels a d) 0"
  let ?run = "move_loop cc lfs d ((walkabout a)\<lparr>direction := d\<rparr>) (el / 1000) ?cs"
  from pr have mem: "pr \<in> set (fst ?run)"
    by (simp add: move_probes_def move_run_def)
  have "p_pixels pr \<in> set (map p_pixels (fst ?run))" using mem by simp
  then have "p_pixels pr \<in> set ?cs"
    using move_loop_pixels [of cc lfs d "(walkabout a)\<lparr>direction := d\<rparr>" "el / 1000" ?cs]
    by (metis in_set_takeD)
  then have pos: "1 \<le> p_pixels pr" by (simp add: set_range_down)
  have two: "2 \<in> set ?cs \<longleftrightarrow> 2 \<le> iter_pixels a d" by (simp add: set_range_down)
  from move_loop_adj [OF range_down_sorted mem] pos two
  show "p_adj_speed pr =
       (if p_pixels pr = 2 \<or> (p_pixels pr = 1 \<and> 2 \<le> iter_pixels a d) then 1 else el / 1000)"
    by auto
qed

theorem speed_factor_sticks_witness:
  "move_probes blocked_all frame_16 500 (actor_at (100, 100) (16, 16) (Velocity 3 0)) East ! 0
     \<in> set (move_probes blocked_all frame_16 500 (actor_at (100, 100) (16, 16) (Velocity 3 0)) East)
   \<and> p_pixels (move_probes blocked_all frame_16 500
        (actor_at (100, 100) (16, 16) (Velocity 3 0)) East ! 0) = 3
   \<and> p_adj_speed (move_probes blocked_all frame_16 500
        (actor_at (100, 100) (16, 16) (Velocity 3 0)) East ! 0) = 500 / 1000
   \<and> move_probes blocked_all frame_16 500 (actor_at (100, 100) (16, 16) (Velocity 3 0)) East ! 2
     \<in> set (move_probes blocked_all frame_16 500 (actor_at (100, 100) (16, 16) (Velocity 3 0)) East)
   \<and> p_pixels (move_probes blocked_all frame_16 500
        (actor_at (100, 100) (16, 16) (Velocity 3 0)) East ! 2) = 1
   \<and> p_adj_speed (move_probes blocked_all frame_16 500
        (actor_at (100, 100) (16, 16) (Velocity 3 0)) East ! 2) = 1"
proof -
  let ?a = "actor_at (100, 100) (16, 16) (Velocity 3 0)"
  let ?ps = "move_probes blocked_all frame_16 500 ?a East"
  have it: "iter_pixels ?a East = 3"
    by (simp add: iter_pixels_def planned_movement_in_pixels_def py_int_def actor_at_def)
  have m0: "?ps ! 0 \<in> set ?ps" and m2: "?ps ! 2 \<in> set ?ps"
    by (simp_all add: sticky_probes)
  have p0: "p_pixels (?ps ! 0) = 3" and p2: "p_pixels (?ps ! 2) = 1"
    by (simp_all add: sticky_probes)
  note t = speed_factor_sticks [of blocked_all frame_16 500 ?a East]
  from t m0 have "p_adj_speed (?ps ! 0) =
      (if p_pixels (?ps ! 0) = 2 \<or> (p_pixels (?ps ! 0) = 1 \<and> 2 \<le> iter_pixels ?a East) then 1 else 500 / 1000)"
    by (rule bspec)
  then have a0: "p_adj_speed (?ps ! 0) = 500 / 1000"
    by (simp only: p0 it) simp
  from t m2 have "p_adj_speed (?ps ! 2) =
      (if p_pixels (?ps ! 2) = 2 \<or> (p_pixels (?ps ! 2) = 1 \<and> 2 \<le> iter_pixels ?a East) then 1 else 500 / 1000)"
    by (rule bspec)
  then have a2: "p_adj_speed (?ps ! 2) = 1"
    by (simp only: p2 it) simp
  from m0 p0 a0 m2 p2 a2 show ?thesis by blast
qed

section \<open>The scenario of the 16 by 16 actor\<close>

text \<open>
  C4 as the specification words it does not hold: the actor's own rectangle spans
  the columns 100 to 115 and already meets the solid region starting at column 108,
  so every union rectangle is blocked; the call returns false and the actor stays at
  x = 100.
\<close>

theorem scenario_counterexample:
  "\<not> fst (move (intersects_solid [Rect 108 100 16 16]) frame_16 16
       (actor_at (100, 100) (16, 16) (Velocity 2 0)) East)
   \<and> topleft_float (walkabout (snd (move (intersects_solid [Rect 108 100 16 16]) frame_16 16
       (actor_at (100, 100) (16, 16) (Velocity 2 0)) East))) = (100, 100)"
  by (simp add: move_eval)

text \<open>
  C4, amended. With the solid region \<open>[108,124) \<times> [100,116)\<close> the call returns
  false for every elapsed time, sets the action to stand and leaves the actor at
  (100, 100), whose rectangle overlaps the region from the start. The 1-pixel commit
  to x = 101 is what the call does when the region begins one pixel past the actor's
  right edge, at \<open>[117,133) \<times> [100,116)\<close>: the 2-pixel step is blocked and the
  1-pixel step, taken with factor 1, is free.
\<close>

theorem scenario_blocked_from_the_start:
  "move (intersects_solid [Rect 108 100 16 16]) lfs el
     (actor_at (100, 100) (16, 16) (Velocity 2 0)) East =
   (False, \<lparr>walkabout = \<lparr>direction = East, action = Stand, topleft_float = (100, 100),
                          size_w = (16, 16), rect = Rect 100 100 16 16\<rparr>,
            velocity = Velocity 2 0\<rparr>)
   \<and> colliderect (rect (walkabout (actor_at (100, 100) (16, 16) (Velocity 2 0)))) (Rect 108 100 16 16)
   \<and> move (intersects_solid [Rect 117 100 16 16]) lfs el
       (actor_at (100, 100) (16, 16) (Velocity 2 0)) East =
     (True, \<lparr>walkabout = \<lparr>direction = East, action = Walk, topleft_float = (101, 100),
                           size_w = lfs \<lparr>direction = East, action = Walk, topleft_float = (100, 100),
                                         size_w = (16, 16), rect = Rect 100 100 16 16\<rparr>,
                           rect = Rect 101 100 16 16\<rparr>,
             velocity = Velocity 2 0\<rparr>)"
  by (simp add: move_eval)

section \<open>Blocked moves\<close>

text \<open>
  C6. If the collision query holds for the union rectangle of every pass, the call
  returns false and changes nothing but the direction (set to the requested one) and
  the action (set to stand): float position, rectangle and size are as before. Any
  number of repeated calls with the same surroundings return false again and leave
  the same float position.
\<close>

theorem blocked_move_stands:
  assumes "\<forall>pr \<in> set (move_probes cc lfs el a d). cc (p_collision pr)"
  shows "move cc lfs el a d = (False, a\<lparr>walkabout := (walkabout a)\<lparr>direction := d, action := Stand\<rparr>\<rparr>)
    \<and> action (walkabout (snd (move cc lfs el a d))) = Stand
    \<and> topleft_float (walkabout (snd (move cc lfs el a d))) = topleft_float (walkabout a)
    \<and> rect (walkabout (snd (move cc lfs el a d))) = rect (walkabout a)
    \<and> size_w (walkabout (snd (move cc lfs el a d))) = size_w (walkabout a)
    \<and> \<not> fst (move cc lfs el (move_times cc lfs el d n a) d)
    \<and> topleft_float (walkabout (snd (move cc lfs el (move_times cc lfs el d n a) d))) =
        topleft_float (walkabout a)"
proof -
  let ?a' = "a\<lparr>walkabout := (walkabout a)\<lparr>direction := d, action := Stand\<rparr>\<rparr>"
  have first: "move cc lfs el a d = (False, ?a')"
    using assms by (rule blocked_fixpoint(1))
  have again: "move cc lfs el ?a' d = (False, ?a')"
    using assms by (rule blocked_fixpoint(2))
  have nth: "move cc lfs el (move_times cc lfs el d n a) d = (False, ?a')"
  proof (cases n)
    case 0
    with first show ?thesis by simp
  next
    case (Suc m)
    with blocked_move_times [OF assms, of m] again show ?thesis by simp
  qed
  show ?thesis
    by (simp add: first nth)
qed

theorem blocked_move_stands_witness:
  "move blocked_all frame_16 16 (actor_at (100, 100) (16, 16) (Velocity 3 0)) East =
     (False, \<lparr>walkabout = \<lparr>direction = East, action = Stand, topleft_float = (100, 100),
                            size_w = (16, 16), rect = Rect 100 100 16 16\<rparr>,
              velocity = Velocity 3 0\<rparr>)
   \<and> topleft_float (walkabout (snd (move blocked_all frame_16 16
        (actor_at (100, 100) (16, 16) (Velocity 3 0)) East))) = (100, 100)
   \<and> \<not> fst (move blocked_all frame_16 16 (move_times blocked_all frame_16 16 East 2
        (actor_at (100, 100) (16, 16) (Velocity 3 0))) East)
   \<and> topleft_float (walkabout (snd (move blocked_all frame_16 16
        (move_times blocked_all frame_16 16 East 2
           (actor_at (100, 100) (16, 16) (Velocity 3 0))) East))) = (100, 100)"
proof -
  have h: "\<forall>pr \<in> set (move_probes blocked_all frame_16 16 (actor_at (100, 100) (16, 16) (Velocity 3 0)) East).
      blocked_all (p_collision pr)"
    by (simp add: blocked_all_def)
  from blocked_move_stands [OF h, of 2] show ?thesis
    by (simp add: actor_at_def Rect_at_def py_int_def)
qed

section \<open>The rectangle after a commit\<close>

text \<open>
  C9. When a call commits, the stored rectangle is the destination rectangle of the
  last pass, whose width and height are the actor's size before the call, while the
  size field becomes the animation's largest frame size; the two can differ, as in
  the worked call where a 16 by 16 rectangle is stored beside the size (20, 24).
\<close>

theorem commit_rect_keeps_old_size:
  "move cc lfs el a d = (True, a') \<Longrightarrow>
     rect (walkabout a') = p_destination (last (move_probes cc lfs el a d))
     \<and> rw (rect (walkabout a')) = fst (size_w (walkabout a))
     \<and> rh (rect (walkabout a')) = snd (size_w (walkabout a))
     \<and> size_w (walkabout a') = lfs ((walkabout a)\<lparr>direction := d, action := Walk\<rparr>)
     \<and> action (walkabout a') = Walk
     \<and> direction (walkabout a') = d"
proof -
  assume m: "move cc lfs el a d = (True, a')"
  let ?pr = "last (move_probes cc lfs el a d)"
  note c = move_True_commit [OF m]
  from move_probes_shape [OF c(1)]
  have dest: "rw (p_destination ?pr) = fst (size_w (walkabout a))"
    "rh (p_destination ?pr) = snd (size_w (walkabout a))"
    by (simp_all add: Rect_at_def)
  from c(3) dest show ?thesis
    by (simp add: commit_def)
qed

theorem commit_rect_keeps_old_size_witness:
  "move (intersects_solid []) frame_20_24 1000 (actor_at (100, 100) (16, 16) (Velocity 5 0)) East =
     (True, \<lparr>walkabout = \<lparr>direction = East, action = Walk, topleft_float = (105, 100),
                           size_w = (20, 24), rect = Rect 105 100 16 16\<rparr>,
             velocity = Velocity 5 0\<rparr>)
   \<and> size_w (walkabout (actor_at (100, 100) (16, 16) (Velocity 5 0))) = (16, 16)
   \<and> rw (Rect 105 100 16 16) = fst (size_w (walkabout (actor_at (100, 100) (16, 16) (Velocity 5 0))))
   \<and> rh (Rect 105 100 16 16) = snd (size_w (walkabout (actor_at (100, 100) (16, 16) (Velocity 5 0))))
   \<and> (rw (Rect 105 100 16 16), rh (Rect 105 100 16 16)) \<noteq> ((20, 24) :: int \<times> int)"
proof -
  let ?a = "actor_at (100, 100) (16, 16) (Velocity 5 0)"
  let ?a' = "\<lparr>walkabout = \<lparr>direction = East, action = Walk, topleft_float = (105, 100),
                           size_w = (20, 24), rect = Rect 105 100 16 16\<rparr>,
             velocity = Velocity 5 0\<rparr>"
  have m: "move (intersects_solid []) frame_20_24 1000 ?a East = (True, ?a')"
    by (rule grow_move)
  from commit_rect_keeps_old_size [OF m]
  have "rw (rect (walkabout ?a')) = fst (size_w (walkabout ?a))"
    and "rh (rect (walkabout ?a')) = snd (size_w (walkabout ?a))"
    by blast+
  then have "rw (Rect 105 100 16 16) = fst (size_w (walkabout ?a))"
    and "rh (Rect 105 100 16 16) = snd (size_w (walkabout ?a))"
    by simp_all
  moreover have "size_w (walkabout ?a) = (16, 16)"
    by (simp add: actor_at_def)
  moreover have "(rw (Rect 105 100 16 16), rh (Rect 105 100 16 16)) \<noteq> ((20, 24) :: int \<times> int)"
    by simp
  ultimately show ?thesis
    using m by blast
qed

section \<open>Assigning the activation flag\<close>

lemma setter_True:
  "active_setter hk (PyBool True) (self, calls) =
     Returned (on_activation hk (self\<lparr>active_attr := PyBool True\<rparr>), calls @ [On_activation])"
  by (simp add: active_setter_def)

lemma setter_False:
  "active_setter hk (PyBool False) (self, calls) =
     Returned (on_deactivation hk (self\<lparr>active_attr := PyBool False\<rparr>), calls @ [On_deactivation])"
  by (simp add: active_setter_def)

lemma setter_other:
  "status \<noteq> PyBool True \<Longrightarrow> status \<noteq> PyBool False \<Longrightarrow>
     active_setter hk status (self, calls) = Raised ValueError (self\<lparr>active_attr := status\<rparr>, calls)"
  by (simp add: active_setter_def)

lemma setter_bool:
  "\<exists>self'. active_setter hk (PyBool b) (self, calls) = Returned (self', calls @ [hook_for b])"
  by (cases b) (simp_all add: setter_True setter_False hook_for_def)

lemma assign_all_bools:
  "\<exists>self'. assign_all hk (map PyBool bs) (self, calls) = Returned (self', calls @ map hook_for bs)"
proof (induction bs arbitrary: self calls)
  case Nil
  then show ?case by simp
next
  case (Cons b bs)
  from setter_bool [of hk b self calls] obtain s1
    where 1: "active_setter hk (PyBool b) (self, calls) = Returned (s1, calls @ [hook_for b])"
    by blast
  from Cons.IH [of s1 "calls @ [hook_for b]"] obtain s2
    where 2: "assign_all hk (map PyBool bs) (s1, calls @ [hook_for b]) =
                Returned (s2, (calls @ [hook_for b]) @ map hook_for bs)"
    by blast
  from 1 2 show ?case by simp
qed

text \<open>
  C2. Assigning a value that is neither True nor False raises ValueError, but the
  setter has stored the value before it checks it: after assigning 5 to a fresh NPC
  the error is raised and \<open>active\<close> reads 5, not the False it held before.
\<close>

theorem setter_stores_before_raising:
  "active_setter (NPC_hooks :: npc hooks) (PyInt 5) (NPC_init, []) =
     Raised ValueError (\<lparr>active_attr = PyInt 5\<rparr>, [])
   \<and> active NPC_init = PyBool False
   \<and> active \<lparr>active_attr = PyInt 5\<rparr> = PyInt 5
   \<and> active \<lparr>active_attr = PyInt 5\<rparr> \<noteq> active NPC_init"
  by (simp add: setter_other NPC_init_def active_def)

text \<open>
  C7. Assigning True calls \<open>on_activation\<close> once and assigning False calls
  \<open>on_deactivation\<close> once, whatever the flag held before: a run of boolean
  assignments adds exactly one hook call per assignment, in order, and assigning True
  twice in a row calls \<open>on_activation\<close> twice.
\<close>

theorem setter_always_calls_hook:
  "active_setter hk (PyBool True) (self, calls) =
     Returned (on_activation hk (self\<lparr>active_attr := PyBool True\<rparr>), calls @ [On_activation])
   \<and> active_setter hk (PyBool False) (self, calls) =
     Returned (on_deactivation hk (self\<lparr>active_attr := PyBool False\<rparr>), calls @ [On_deactivation])
   \<and> (\<exists>self'. assign_all hk (map PyBool bs) (self, calls) =
         Returned (self', calls @ map hook_for bs))
   \<and> (\<exists>self'. assign_all hk [PyBool True, PyBool True] (self, calls) =
         Returned (self', calls @ [On_activation, On_activation]))"
proof -
  from assign_all_bools [of hk "[True, True]" self calls]
  have "\<exists>self'. assign_all hk [PyBool True, PyBool True] (self, calls) =
         Returned (self', calls @ [On_activation, On_activation])"
    by (simp add: hook_for_def)
  with assign_all_bools [of hk bs self calls] show ?thesis
    by (simp add: setter_True setter_False)
qed

section \<open>Updating a tile\<close>

lemma Tile_init_animated:
  "Tile_init env tid flags md = Returned t \<Longrightarrow> is_animated t \<Longrightarrow> animatedsprite t \<noteq> None"
  by (auto simp: Tile_init_def Let_def is_animated_def split: if_splits option.splits)

lemma Tile_init_blank_solid: "Tile_init demo_env (- 1) SOLID None = Returned blank_solid_tile"
  by (simp add: Tile_init_def demo_env_def blank_solid_tile_def is_animated_def flag_in_def
      SOLID_def ANIMATED_def)

lemma Tile_init_static: "Tile_init demo_env 7 (SOLID OR DESTRUCTIBLE) None = Returned static_tile"
  by (simp add: Tile_init_def demo_env_def static_tile_def is_animated_def flag_in_def
      SOLID_def DESTRUCTIBLE_def ANIMATED_def)

lemma Tile_init_animated_tile:
  "Tile_init demo_env 3 ANIMATED (Some [(3, 100), (4, 100)]) = Returned animated_tile"
  by (simp add: Tile_init_def demo_env_def animated_tile_def is_animated_def flag_in_def
      ANIMATED_def)

text \<open>
  C8. \<open>update\<close> returns the tile as it is when its id is \<open>- 1\<close>. Otherwise, on
  an animated tile it passes the time delta to the animated sprite and takes the
  image from the sprite and the rectangle from that image; on a tile without the
  animated flag it takes the tilesheet's sub-image at the tile id and that image's
  rectangle.
\<close>

theorem update_cases:
  "(tile_id t = - 1 \<longrightarrow> update env t dt = Returned t)
   \<and> (tile_id t \<noteq> - 1 \<and> is_animated t \<and> animatedsprite t = Some s \<longrightarrow>
        update env t dt =
          Returned (t\<lparr>animatedsprite := Some (sprite_update env dt s),
                     image := sprite_image env (sprite_update env dt s),
                     tile_rect := get_rect env (sprite_image env (sprite_update env dt s))\<rparr>))
   \<and> (tile_id t \<noteq> - 1 \<and> \<not> is_animated t \<longrightarrow>
        update env t dt =
          Returned (t\<lparr>image := get_tile_subsurface env (tile_id t),
                     tile_rect := get_rect env (get_tile_subsurface env (tile_id t))\<rparr>))"
  by (simp add: update_def Let_def)

theorem update_cases_witness:
  "tile_id blank_solid_tile = - 1
   \<and> update demo_env blank_solid_tile 150 = Returned blank_solid_tile
   \<and> (tile_id animated_tile \<noteq> - 1 \<and> is_animated animated_tile
       \<and> animatedsprite animated_tile = Some (0, [(3, 0, 100), (4, 100, 100)]))
   \<and> update demo_env animated_tile 150 =
       Returned (animated_tile\<lparr>animatedsprite := Some (150, [(3, 0, 100), (4, 100, 100)]),
                               image := 4, tile_rect := Rect 0 0 32 32\<rparr>)
   \<and> (tile_id static_tile \<noteq> - 1 \<and> \<not> is_animated static_tile)
   \<and> update demo_env static_tile 150 =
       Returned (static_tile\<lparr>image := 7, tile_rect := Rect 0 0 32 32\<rparr>)"
proof -
  have b: "tile_id blank_solid_tile = - 1"
    by (simp add: blank_solid_tile_def)
  have a: "tile_id animated_tile \<noteq> - 1 \<and> is_animated animated_tile
       \<and> animatedsprite animated_tile = Some (0, [(3, 0, 100), (4, 100, 100)])"
    by (simp add: animated_tile_def is_animated_def flag_in_def ANIMATED_def)
  have s: "tile_id static_tile \<noteq> - 1 \<and> \<not> is_animated static_tile"
    by (simp add: static_tile_def is_animated_def flag_in_def ANIMATED_def)
  have env: "sprite_update demo_env 150 (0, [(3, 0, 100), (4, 100, 100)]) = (150, [(3, 0, 100), (4, 100, 100)])"
    "sprite_image demo_env (150, [(3, 0, 100), (4, 100, 100)]) = 4"
    "get_rect demo_env 4 = Rect 0 0 32 32" "get_rect demo_env 7 = Rect 0 0 32 32"
    "get_tile_subsurface demo_env 7 = 7" "tile_id static_tile = 7"
    by (simp_all add: demo_env_def static_tile_def)
  from update_cases [where t = blank_solid_tile and env = demo_env and dt = 150] b
  have 1: "update demo_env blank_solid_tile 150 = Returned blank_solid_tile" by blast
  from update_cases [where t = animated_tile and s = "(0, [(3, 0, 100), (4, 100, 100)])" and env = demo_env and dt = 150] a
  have 2: "update demo_env animated_tile 150 =
       Returned (animated_tile\<lparr>animatedsprite := Some (150, [(3, 0, 100), (4, 100, 100)]),
                               image := 4, tile_rect := Rect 0 0 32 32\<rparr>)"
    by (simp add: env)
  from update_cases [where t = static_tile and env = demo_env and dt = 150] s
  have 3: "update demo_env static_tile 150 =
       Returned (static_tile\<lparr>image := 7, tile_rect := Rect 0 0 32 32\<rparr>)"
    by (simp add: env)
  from b a s 1 2 3 show ?thesis by blast
qed

text \<open>
  C10. The three flag predicates read the flags only: changing the tile id changes
  none of them, and tiles with equal flags agree on all three. A blank tile
  (id \<open>- 1\<close>) with the SOLID flag is solid, although \<open>update\<close> leaves it
  untouched.
\<close>

theorem flag_predicates_ignore_tile_id:
  "is_solid (t\<lparr>tile_id := i\<rparr>) = is_solid t
   \<and> is_destructible (t\<lparr>tile_id := i\<rparr>) = is_destructible t
   \<and> is_animated (t\<lparr>tile_id := i\<rparr>) = is_animated t
   \<and> (tile_flags t = tile_flags t' \<longrightarrow>
        is_solid t = is_solid t' \<and> is_destructible t = is_destructible t'
        \<and> is_animated t = is_animated t')
   \<and> (tile_id t = - 1 \<and> flag_in SOLID (tile_flags t) \<longrightarrow>
        is_solid t \<and> update env t dt = Returned t)"
  by (simp add: is_solid_def is_destructible_def is_animated_def update_def)

theorem flag_predicates_ignore_tile_id_witness:
  "tile_flags blank_solid_tile = tile_flags (blank_solid_tile\<lparr>tile_id := 7\<rparr>)
   \<and> tile_id blank_solid_tile = - 1
   \<and> flag_in SOLID (tile_flags blank_solid_tile)
   \<and> is_solid blank_solid_tile
   \<and> is_solid (blank_solid_tile\<lparr>tile_id := 7\<rparr>)
   \<and> update demo_env blank_solid_tile 150 = Returned blank_solid_tile"
proof -
  have h: "tile_id blank_solid_tile = - 1 \<and> flag_in SOLID (tile_flags blank_solid_tile)"
    by (simp add: blank_solid_tile_def flag_in_def SOLID_def)
  have f: "tile_flags blank_solid_tile = tile_flags (blank_solid_tile\<lparr>tile_id := 7\<rparr>)"
    by simp
  note t = flag_predicates_ignore_tile_id [where t = blank_solid_tile and i = 7 and t' = "blank_solid_tile\<lparr>tile_id := 7\<rparr>" and env = demo_env and dt = 150]
  from t h have 1: "is_solid blank_solid_tile" and 2: "update demo_env blank_solid_tile 150 = Returned blank_solid_tile"
    by blast+
  from t 1 have 3: "is_solid (blank_solid_tile\<lparr>tile_id := 7\<rparr>)" by blast
  from h f 1 2 3 show ?thesis by blast
qed

end
